theory Spec2Isabelle
  imports Complex_Main "HOL-Library.Multiset"
begin

section \<open>Numbers of the source\<close>

text \<open>
  A Python float is a finite number, one of the two infinities, or NaN. The three special
  values follow IEEE-754. A finite result of \<^verbatim>\<open>-\<close> or \<^verbatim>\<open>*\<close> is the exact result
  rounded to the float format; the rounding is the parameter \<open>rnd\<close> of every operation
  below, a function from the exact real result to the float delivered, which may be an
  infinity (overflow). Nothing is assumed of \<open>rnd\<close> unless a statement says so.
\<close>

datatype pyfloat = Fin real | PInf | NInf | NaN

fun fsub :: "(real \<Rightarrow> pyfloat) \<Rightarrow> pyfloat \<Rightarrow> pyfloat \<Rightarrow> pyfloat" where
  "fsub rnd (Fin a) (Fin b) = rnd (a - b)"
| "fsub rnd (Fin a) PInf = NInf"
| "fsub rnd (Fin a) NInf = PInf"
| "fsub rnd PInf (Fin b) = PInf"
| "fsub rnd PInf NInf = PInf"
| "fsub rnd PInf PInf = NaN"
| "fsub rnd NInf (Fin b) = NInf"
| "fsub rnd NInf PInf = NInf"
| "fsub rnd NInf NInf = NaN"
| "fsub rnd NaN y = NaN"
| "fsub rnd x NaN = NaN"

fun fmul :: "(real \<Rightarrow> pyfloat) \<Rightarrow> pyfloat \<Rightarrow> pyfloat \<Rightarrow> pyfloat" where
  "fmul rnd (Fin a) (Fin b) = rnd (a * b)"
| "fmul rnd (Fin a) PInf = (if a = 0 then NaN else if 0 < a then PInf else NInf)"
| "fmul rnd (Fin a) NInf = (if a = 0 then NaN else if 0 < a then NInf else PInf)"
| "fmul rnd PInf (Fin b) = (if b = 0 then NaN else if 0 < b then PInf else NInf)"
| "fmul rnd NInf (Fin b) = (if b = 0 then NaN else if 0 < b then NInf else PInf)"
| "fmul rnd PInf PInf = PInf"
| "fmul rnd PInf NInf = NInf"
| "fmul rnd NInf PInf = NInf"
| "fmul rnd NInf NInf = PInf"
| "fmul rnd NaN y = NaN"
| "fmul rnd x NaN = NaN"

fun fgt :: "pyfloat \<Rightarrow> pyfloat \<Rightarrow> bool" where
  "fgt (Fin a) (Fin b) = (b < a)"
| "fgt (Fin a) NInf = True"
| "fgt (Fin a) PInf = False"
| "fgt PInf (Fin b) = True"
| "fgt PInf NInf = True"
| "fgt PInf PInf = False"
| "fgt NInf y = False"
| "fgt NaN y = False"
| "fgt x NaN = False"

text \<open>
  A coordinate is a Python number: an int of any size or a float. The coordinates of the
  line come from the configuration as ints and stay ints; centroids are floats by their
  declaration, and nothing stops a caller from passing ints (the repository's own check of
  \<^verbatim>\<open>line_intersection\<close> does).
\<close>

datatype pynum = PyInt int | PyFloat pyfloat

datatype error = ValueError | OverflowError

text \<open>An exception ends the evaluation: the rest runs on a value only.\<close>

definition and_then :: "error + 'a \<Rightarrow> ('a \<Rightarrow> error + 'b) \<Rightarrow> error + 'b" where
  "and_then r f = (case r of Inl e \<Rightarrow> Inl e | Inr x \<Rightarrow> f x)"

text \<open>
  The conversion of an operand to float when the other operand is a float. An int is
  rounded to the nearest float; one beyond the range of the floats raises OverflowError
  (\<^verbatim>\<open>int too large to convert to float\<close>).
\<close>

fun to_float :: "(real \<Rightarrow> pyfloat) \<Rightarrow> pynum \<Rightarrow> error + pyfloat" where
  "to_float rnd (PyFloat x) = Inr x"
| "to_float rnd (PyInt n) =
     (case rnd (of_int n) of Fin y \<Rightarrow> Inr (Fin y) | _ \<Rightarrow> Inl OverflowError)"

text \<open>
  \<^verbatim>\<open>a - b\<close> and \<^verbatim>\<open>a * b\<close>: exact on two ints; otherwise both operands are converted
  to float, which may raise, and the float operation follows.
\<close>

fun psub :: "(real \<Rightarrow> pyfloat) \<Rightarrow> pynum \<Rightarrow> pynum \<Rightarrow> error + pynum" where
  "psub rnd (PyInt m) (PyInt n) = Inr (PyInt (m - n))"
| "psub rnd a b =
     and_then (to_float rnd a) (\<lambda>x. and_then (to_float rnd b) (\<lambda>y. Inr (PyFloat (fsub rnd x y))))"

fun pmul :: "(real \<Rightarrow> pyfloat) \<Rightarrow> pynum \<Rightarrow> pynum \<Rightarrow> error + pynum" where
  "pmul rnd (PyInt m) (PyInt n) = Inr (PyInt (m * n))"
| "pmul rnd a b =
     and_then (to_float rnd a) (\<lambda>x. and_then (to_float rnd b) (\<lambda>y. Inr (PyFloat (fmul rnd x y))))"

text \<open>
  \<^verbatim>\<open>a > b\<close> and \<^verbatim>\<open>a < b\<close> never raise and compare exact values, also between an int
  and a float: \<open>exact_value\<close> is the number as an extended real, without rounding.
\<close>

fun exact_value :: "pynum \<Rightarrow> pyfloat" where
  "exact_value (PyInt n) = Fin (of_int n)"
| "exact_value (PyFloat x) = x"

definition pgt :: "pynum \<Rightarrow> pynum \<Rightarrow> bool" where
  "pgt a b = fgt (exact_value a) (exact_value b)"

definition plt :: "pynum \<Rightarrow> pynum \<Rightarrow> bool" where
  "plt a b = pgt b a"

type_synonym point = "pynum \<times> pynum"

section \<open>utils.py: the intersection primitive\<close>

text \<open>
  \<^verbatim>\<open>def ccw(A, B, C): return (C[1] - A[1]) * (B[0] - A[0]) > (B[1] - A[1]) * (C[0] - A[0])\<close>,
  evaluated from left to right.
\<close>

definition ccw :: "(real \<Rightarrow> pyfloat) \<Rightarrow> point \<Rightarrow> point \<Rightarrow> point \<Rightarrow> error + bool" where
  "ccw rnd A B C =
     and_then (psub rnd (snd C) (snd A)) (\<lambda>d1.
     and_then (psub rnd (fst B) (fst A)) (\<lambda>d2.
     and_then (pmul rnd d1 d2) (\<lambda>l.
     and_then (psub rnd (snd B) (snd A)) (\<lambda>d3.
     and_then (psub rnd (fst C) (fst A)) (\<lambda>d4.
     and_then (pmul rnd d3 d4) (\<lambda>r.
     Inr (pgt l r)))))))"

text \<open>
  \<^verbatim>\<open>A, B = p1, p2;  C, D = line_start, line_end\<close>
  \<^verbatim>\<open>return ccw(A, C, D) != ccw(B, C, D) and ccw(A, B, C) != ccw(A, B, D)\<close>:
  the right operand of \<^verbatim>\<open>and\<close> is evaluated only when the left one is true.
\<close>

definition line_intersection ::
  "(real \<Rightarrow> pyfloat) \<Rightarrow> point \<Rightarrow> point \<Rightarrow> point \<Rightarrow> point \<Rightarrow> error + bool" where
  "line_intersection rnd p1 p2 line_start line_end =
     and_then (ccw rnd p1 line_start line_end) (\<lambda>a.
     and_then (ccw rnd p2 line_start line_end) (\<lambda>b.
     if a \<noteq> b then
       and_then (ccw rnd p1 p2 line_start) (\<lambda>c.
       and_then (ccw rnd p1 p2 line_end) (\<lambda>d.
       Inr (c \<noteq> d)))
     else Inr False))"

section \<open>config.py, tracker.py, line\_counter.py: the data\<close>

text \<open>
  \<^verbatim>\<open>LineConfig\<close>: the coordinate list and the orientation tag (the field \<^verbatim>\<open>direction\<close>
  of the source, named \<open>line_direction\<close> here since a crossing event has a field
  \<^verbatim>\<open>direction\<close> too). Of \<^verbatim>\<open>AppConfig\<close> only the section \<^verbatim>\<open>line\<close> is read by the
  line counter.
\<close>

record line_config =
  coordinates :: "int list"
  line_direction :: string

record app_config =
  line :: line_config

record tracked_object =
  track_id :: int
  bbox :: "pynum list"
  confidence :: pynum
  class_id :: int
  class_name :: string
  centroid :: point

text \<open>
  \<^verbatim>\<open>CrossingEvent\<close>; its fields \<^verbatim>\<open>track_id\<close>, \<^verbatim>\<open>class_name\<close> and \<^verbatim>\<open>centroid\<close>
  carry the prefix \<open>event_\<close> to keep them apart from those of a tracked object.
\<close>

record crossing_event =
  event_track_id :: int
  timestamp :: string
  direction :: string
  event_class_name :: string
  event_centroid :: point

text \<open>
  The attributes of a \<^verbatim>\<open>LineCounter\<close>. The last field is not an attribute: it counts the
  calls of \<^verbatim>\<open>datetime.now()\<close> made so far, so that the wall clock can be a parameter
  \<open>clock\<close> of the operations, \<open>clock n\<close> being the formatted reading of call number \<open>n\<close>.
\<close>

record line_counter =
  config :: app_config
  line_start :: point
  line_end :: point
  direction_type :: string
  previous_positions :: "int \<rightharpoonup> point"
  crossed_ids :: "int set"
  crossing_events :: "crossing_event list"
  count_up :: int
  count_down :: int
  count_left :: int
  count_right :: int
  now_calls :: nat

section \<open>line\_counter.py: the operations\<close>

text \<open>
  \<^verbatim>\<open>__init__\<close>: the unpacking \<^verbatim>\<open>x1, y1, x2, y2 = config.line.coordinates\<close> raises
  ValueError unless the list has exactly four elements; nothing else is checked, and the
  four ints are kept as they are. The calls of \<^verbatim>\<open>print\<close>, here and in
  \<^verbatim>\<open>_record_crossing\<close>, write to standard output and leave the attributes alone; they
  are not modelled.
\<close>

text \<open>The attributes as \<^verbatim>\<open>__init__\<close> sets them, once the four coordinates are unpacked.\<close>

definition new_counter :: "app_config \<Rightarrow> int \<Rightarrow> int \<Rightarrow> int \<Rightarrow> int \<Rightarrow> line_counter" where
  "new_counter cfg x1 y1 x2 y2 =
     \<lparr> config = cfg,
       line_start = (PyInt x1, PyInt y1),
       line_end = (PyInt x2, PyInt y2),
       direction_type = line_direction (line cfg),
       previous_positions = Map.empty,
       crossed_ids = {},
       crossing_events = [],
       count_up = 0, count_down = 0, count_left = 0, count_right = 0,
       now_calls = 0 \<rparr>"

definition LineCounter_init :: "app_config \<Rightarrow> error + line_counter" where
  "LineCounter_init cfg =
     (case coordinates (line cfg) of
        [x1, y1, x2, y2] \<Rightarrow> Inr (new_counter cfg x1 y1 x2 y2)
      | _ \<Rightarrow> Inl ValueError)"

definition determine_direction :: "line_counter \<Rightarrow> point \<Rightarrow> point \<Rightarrow> string" where
  "determine_direction s prev_pos current_pos =
     (if direction_type s = ''vertical'' then
        (if plt (snd current_pos) (snd prev_pos) then ''up'' else ''down'')
      else
        (if plt (fst current_pos) (fst prev_pos) then ''left'' else ''right''))"

definition record_crossing ::
  "(nat \<Rightarrow> string) \<Rightarrow> line_counter \<Rightarrow> int \<Rightarrow> string \<Rightarrow> string \<Rightarrow> point \<Rightarrow> line_counter" where
  "record_crossing clock s tid dir cls cen =
     (let event = \<lparr> event_track_id = tid, timestamp = clock (now_calls s), direction = dir,
                     event_class_name = cls, event_centroid = cen \<rparr>;
          s1 = s \<lparr> crossing_events := crossing_events s @ [event],
                   now_calls := Suc (now_calls s) \<rparr>
      in if dir = ''up'' then s1 \<lparr> count_up := count_up s1 + 1 \<rparr>
         else if dir = ''down'' then s1 \<lparr> count_down := count_down s1 + 1 \<rparr>
         else if dir = ''left'' then s1 \<lparr> count_left := count_left s1 + 1 \<rparr>
         else if dir = ''right'' then s1 \<lparr> count_right := count_right s1 + 1 \<rparr>
         else s1)"

text \<open>
  The body of the loop of \<^verbatim>\<open>update\<close>, for one tracked object. The intersection test is
  the only step that can raise, and it comes before every assignment.
\<close>

definition update_obj ::
  "(real \<Rightarrow> pyfloat) \<Rightarrow> (nat \<Rightarrow> string) \<Rightarrow> line_counter \<Rightarrow> tracked_object \<Rightarrow> error + line_counter" where
  "update_obj rnd clock s obj =
     (let tid = track_id obj;
          current_pos = centroid obj
      in and_then
           (case previous_positions s tid of
              Some prev_pos \<Rightarrow>
                and_then (line_intersection rnd prev_pos current_pos (line_start s) (line_end s))
                  (\<lambda>hit.
                    if hit then
                      if tid \<notin> crossed_ids s then
                        (let dir = determine_direction s prev_pos current_pos;
                             s2 = record_crossing clock s tid dir (class_name obj) current_pos
                         in Inr (s2 \<lparr> crossed_ids := insert tid (crossed_ids s2) \<rparr>))
                      else Inr s
                    else Inr s)
            | None \<Rightarrow> Inr s)
           (\<lambda>s1. Inr (s1 \<lparr> previous_positions := (previous_positions s1)(tid \<mapsto> current_pos) \<rparr>)))"

text \<open>
  \<^verbatim>\<open>update\<close> changes the counter in place, so an exception leaves it as the objects
  before the raising one have made it. The result is the exception, if any, and the
  counter after the call.
\<close>

fun update ::
  "(real \<Rightarrow> pyfloat) \<Rightarrow> (nat \<Rightarrow> string) \<Rightarrow> line_counter \<Rightarrow> tracked_object list
     \<Rightarrow> error option \<times> line_counter" where
  "update rnd clock s [] = (None, s)"
| "update rnd clock s (obj # objs) =
     (case update_obj rnd clock s obj of
        Inl e \<Rightarrow> (Some e, s)
      | Inr s' \<Rightarrow> update rnd clock s' objs)"

text \<open>
  A sequence of \<^verbatim>\<open>update\<close> calls, one per tick, with no \<^verbatim>\<open>reset\<close> in between; a
  call that raises leaves its counter to the next call.
\<close>

fun updates ::
  "(real \<Rightarrow> pyfloat) \<Rightarrow> (nat \<Rightarrow> string) \<Rightarrow> line_counter \<Rightarrow> tracked_object list list
     \<Rightarrow> line_counter" where
  "updates rnd clock s [] = s"
| "updates rnd clock s (tick # ticks) = updates rnd clock (snd (update rnd clock s tick)) ticks"

definition get_total_count :: "line_counter \<Rightarrow> int" where
  "get_total_count s = count_up s + count_down s + count_left s + count_right s"

definition get_statistics :: "line_counter \<Rightarrow> (string \<rightharpoonup> int)" where
  "get_statistics s =
     [''total'' \<mapsto> get_total_count s,
      ''up'' \<mapsto> count_up s,
      ''down'' \<mapsto> count_down s,
      ''left'' \<mapsto> count_left s,
      ''right'' \<mapsto> count_right s]"

definition reset :: "line_counter \<Rightarrow> line_counter" where
  "reset s = s \<lparr> previous_positions := Map.empty,
                 crossed_ids := {},
                 crossing_events := [],
                 count_up := 0, count_down := 0, count_left := 0, count_right := 0 \<rparr>"

text \<open>
  The public calls that change a counter, and a run of them in order: what can happen to an
  instance over its lifetime.
\<close>

datatype call = Update "tracked_object list" | Reset

fun run ::
  "(real \<Rightarrow> pyfloat) \<Rightarrow> (nat \<Rightarrow> string) \<Rightarrow> line_counter \<Rightarrow> call list \<Rightarrow> line_counter" where
  "run rnd clock s [] = s"
| "run rnd clock s (Update objs # cs) = run rnd clock (snd (update rnd clock s objs)) cs"
| "run rnd clock s (Reset # cs) = run rnd clock (reset s) cs"

section \<open>Notions used to state the properties\<close>

text \<open>
  The counter once the loop body has run on \<open>obj\<close>: as the body leaves it, or unchanged
  when the body raises.
\<close>

definition after_obj ::
  "(real \<Rightarrow> pyfloat) \<Rightarrow> (nat \<Rightarrow> string) \<Rightarrow> line_counter \<Rightarrow> tracked_object \<Rightarrow> line_counter" where
  "after_obj rnd clock s obj =
     (case update_obj rnd clock s obj of Inl e \<Rightarrow> s | Inr s' \<Rightarrow> s')"


text \<open>
  \<open>raising rnd s obj\<close>: a previous position is stored for \<open>obj\<close> and the intersection
  test on it raises. \<open>counted rnd s obj\<close>: the three tests of the loop body succeed (a
  previous position is stored, the step from it intersects the line, the identity has not
  crossed yet); \<open>event_of clock s obj\<close> is the event recorded then.
\<close>

definition raising :: "(real \<Rightarrow> pyfloat) \<Rightarrow> line_counter \<Rightarrow> tracked_object \<Rightarrow> bool" where
  "raising rnd s obj =
     (case previous_positions s (track_id obj) of
        Some prev_pos \<Rightarrow>
          (case line_intersection rnd prev_pos (centroid obj) (line_start s) (line_end s) of
             Inl e \<Rightarrow> True | Inr hit \<Rightarrow> False)
      | None \<Rightarrow> False)"

definition counted :: "(real \<Rightarrow> pyfloat) \<Rightarrow> line_counter \<Rightarrow> tracked_object \<Rightarrow> bool" where
  "counted rnd s obj =
     (case previous_positions s (track_id obj) of
        Some prev_pos \<Rightarrow>
          line_intersection rnd prev_pos (centroid obj) (line_start s) (line_end s) = Inr True
          \<and> track_id obj \<notin> crossed_ids s
      | None \<Rightarrow> False)"

definition event_of :: "(nat \<Rightarrow> string) \<Rightarrow> line_counter \<Rightarrow> tracked_object \<Rightarrow> crossing_event" where
  "event_of clock s obj =
     \<lparr> event_track_id = track_id obj, timestamp = clock (now_calls s),
       direction = determine_direction s (the (previous_positions s (track_id obj))) (centroid obj),
       event_class_name = class_name obj, event_centroid = centroid obj \<rparr>"

text \<open>
  The two products that \<open>ccw A B C\<close> compares, as the code computes them, and
  \<open>collinear rnd A B C\<close>: both are computed without an exception and are equal, which is
  what lying exactly on one line means to the code.
\<close>

definition left_product :: "(real \<Rightarrow> pyfloat) \<Rightarrow> point \<Rightarrow> point \<Rightarrow> point \<Rightarrow> error + pynum" where
  "left_product rnd A B C =
     and_then (psub rnd (snd C) (snd A)) (\<lambda>d1.
     and_then (psub rnd (fst B) (fst A)) (\<lambda>d2. pmul rnd d1 d2))"

definition right_product :: "(real \<Rightarrow> pyfloat) \<Rightarrow> point \<Rightarrow> point \<Rightarrow> point \<Rightarrow> error + pynum" where
  "right_product rnd A B C =
     and_then (psub rnd (snd B) (snd A)) (\<lambda>d3.
     and_then (psub rnd (fst C) (fst A)) (\<lambda>d4. pmul rnd d3 d4))"

definition collinear :: "(real \<Rightarrow> pyfloat) \<Rightarrow> point \<Rightarrow> point \<Rightarrow> point \<Rightarrow> bool" where
  "collinear rnd A B C =
     (case left_product rnd A B C of
        Inl e \<Rightarrow> False
      | Inr l \<Rightarrow>
          (case right_product rnd A B C of
             Inl e \<Rightarrow> False
           | Inr r \<Rightarrow> exact_value l = exact_value r))"

text \<open>
  Kinds of numbers and points: a float, an int, and a number that the conversion to float
  accepts (any float, and an int within the range of the floats).
\<close>

fun is_float :: "pynum \<Rightarrow> bool" where
  "is_float (PyFloat x) = True"
| "is_float (PyInt n) = False"

fun is_int :: "pynum \<Rightarrow> bool" where
  "is_int (PyInt n) = True"
| "is_int (PyFloat x) = False"

definition float_point :: "point \<Rightarrow> bool" where
  "float_point p = (is_float (fst p) \<and> is_float (snd p))"

definition int_point :: "point \<Rightarrow> bool" where
  "int_point p = (is_int (fst p) \<and> is_int (snd p))"

definition converts :: "(real \<Rightarrow> pyfloat) \<Rightarrow> pynum \<Rightarrow> bool" where
  "converts rnd a = (case to_float rnd a of Inl e \<Rightarrow> False | Inr x \<Rightarrow> True)"

definition in_range :: "(real \<Rightarrow> pyfloat) \<Rightarrow> point \<Rightarrow> bool" where
  "in_range rnd p = (converts rnd (fst p) \<and> converts rnd (snd p))"



definition has_nan :: "point \<Rightarrow> bool" where
  "has_nan p = (fst p = PyFloat NaN \<or> snd p = PyFloat NaN)"

text \<open>
  What the float format guarantees of the rounding where a statement needs a definite
  result: an integer of magnitude at most \<open>2^53\<close> is a float and is returned unchanged.
\<close>

definition exact_on_ints :: "(real \<Rightarrow> pyfloat) \<Rightarrow> bool" where
  "exact_on_ints rnd = (\<forall>n::int. \<bar>n\<bar> \<le> 2 ^ 53 \<longrightarrow> rnd (of_int n) = Fin (of_int n))"

text \<open>The events that \<open>s'\<close> has beyond the first \<open>length (crossing_events s)\<close> ones.\<close>

definition appended :: "line_counter \<Rightarrow> line_counter \<Rightarrow> crossing_event list" where
  "appended s s' = drop (length (crossing_events s)) (crossing_events s')"


text \<open>The number of events of a list that carry the direction label \<open>d\<close>.\<close>

definition bump :: "string \<Rightarrow> crossing_event list \<Rightarrow> int" where
  "bump d es = int (length (filter (\<lambda>e. direction e = d) es))"

text \<open>The labels that \<^verbatim>\<open>_determine_direction\<close> can return under an orientation tag.\<close>

definition labels :: "string \<Rightarrow> string set" where
  "labels tag = (if tag = ''vertical'' then {''up'', ''down''} else {''left'', ''right''})"

text \<open>
  \<open>grows s s' new\<close>: state \<open>s'\<close> is \<open>s\<close> with the events \<open>new\<close> appended, one per
  identity, none for an identity that had crossed in \<open>s\<close>, and the counters and the
  crossed set moved accordingly.
\<close>

definition grows :: "line_counter \<Rightarrow> line_counter \<Rightarrow> crossing_event list \<Rightarrow> bool" where
  "grows s s' new \<longleftrightarrow>
     crossing_events s' = crossing_events s @ new
     \<and> crossed_ids s' = crossed_ids s \<union> event_track_id ` set new
     \<and> distinct (map event_track_id new)
     \<and> event_track_id ` set new \<inter> crossed_ids s = {}
     \<and> count_up s' = count_up s + bump ''up'' new
     \<and> count_down s' = count_down s + bump ''down'' new
     \<and> count_left s' = count_left s + bump ''left'' new
     \<and> count_right s' = count_right s + bump ''right'' new
     \<and> direction_type s' = direction_type s
     \<and> line_start s' = line_start s \<and> line_end s' = line_end s \<and> config s' = config s
     \<and> direction ` set new \<subseteq> labels (direction_type s)"

text \<open>
  \<open>oriented s\<close>: the logged directions and the counters agree with the orientation tag:
  under the tag vertical only up and down occur and the left and right counters are zero;
  under any other tag only left and right occur and the up and down counters are zero.
\<close>

definition oriented :: "line_counter \<Rightarrow> bool" where
  "oriented s \<longleftrightarrow>
     direction ` set (crossing_events s) \<subseteq> labels (direction_type s)
     \<and> (if direction_type s = ''vertical''
         then count_left s = 0 \<and> count_right s = 0
         else count_up s = 0 \<and> count_down s = 0)"


section \<open>Concrete data for the examples\<close>

text \<open>
  A rounding for the examples: no loss of precision, and the overflow of the float format
  (results of magnitude \<open>2^1024\<close> or more become infinite). Every example below computes on
  integers far below \<open>2^53\<close>, where the float format is exact as well, or on an int beyond
  the range, where the conversion raises in the float format too.
\<close>

definition ideal_rounding :: "real \<Rightarrow> pyfloat" where
  "ideal_rounding x =
     (if 2 ^ 1024 \<le> x then PInf else if x \<le> - (2 ^ 1024) then NInf else Fin x)"

text \<open>A finite float, and a point with finite float coordinates.\<close>

definition fl :: "real \<Rightarrow> pynum" where
  "fl x = PyFloat (Fin x)"

definition fpt :: "real \<Rightarrow> real \<Rightarrow> point" where
  "fpt x y = (fl x, fl y)"

definition ipt :: "int \<Rightarrow> int \<Rightarrow> point" where
  "ipt x y = (PyInt x, PyInt y)"

text \<open>The defaults of \<^verbatim>\<open>LineConfig\<close> in config.py.\<close>

definition default_config :: app_config where
  "default_config = \<lparr> line = \<lparr> coordinates = [0, 500, 1280, 500], line_direction = ''vertical'' \<rparr> \<rparr>"

definition observation :: "int \<Rightarrow> string \<Rightarrow> point \<Rightarrow> tracked_object" where
  "observation i cls c =
     \<lparr> track_id = i, bbox = [fst c, snd c, fst c, snd c], confidence = fl 1, class_id = 2,
       class_name = cls, centroid = c \<rparr>"

text \<open>
  The counter built from the default configuration, a car seen at a finite float point, an
  observation whose centroid is any pair of floats, finite or not, and a clock that always
  reads the same instant.
\<close>

definition example_counter :: line_counter where
  "example_counter = new_counter default_config 0 500 1280 500"

definition car_at :: "int \<Rightarrow> real \<Rightarrow> real \<Rightarrow> tracked_object" where
  "car_at i x y = observation i ''car'' (fpt x y)"

definition lost_at :: "int \<Rightarrow> pyfloat \<Rightarrow> pyfloat \<Rightarrow> tracked_object" where
  "lost_at i x y = observation i ''car'' (PyFloat x, PyFloat y)"

definition fixed_clock :: "nat \<Rightarrow> string" where
  "fixed_clock n = ''2024-01-01 00:00:00.000''"



definition diagonal_config :: app_config where
  "diagonal_config = \<lparr> line = \<lparr> coordinates = [0, 500, 1280, 500], line_direction = ''diagonal'' \<rparr> \<rparr>"

definition huge_int :: int where
  "huge_int = 10 ^ 400"


section \<open>Lemmas on the numbers\<close>

lemma ideal_rounding_exact: "\<bar>x\<bar> \<le> 2 ^ 53 \<Longrightarrow> ideal_rounding x = Fin x"
proof -
  assume a: "\<bar>x\<bar> \<le> 2 ^ 53"
  have "(2::real) ^ 53 < 2 ^ 1024"
    by (rule power_strict_increasing) simp_all
  with a have "x < 2 ^ 1024" "- (2 ^ 1024) < x"
    by linarith+
  then show ?thesis
    by (simp add: ideal_rounding_def)
qed

lemma exact_on_ints_ideal: "exact_on_ints ideal_rounding"
  unfolding exact_on_ints_def
proof (intro allI impI)
  fix n :: int
  assume "\<bar>n\<bar> \<le> 2 ^ 53"
  then have "\<bar>real_of_int n\<bar> \<le> 2 ^ 53"
    by (metis of_int_abs of_int_le_iff of_int_numeral of_int_power)
  then show "ideal_rounding (of_int n) = Fin (of_int n)"
    by (rule ideal_rounding_exact)
qed

lemma ideal_rounding_huge: "ideal_rounding (of_int huge_int) = PInf"
  by (simp add: ideal_rounding_def huge_int_def)

lemmas eval_defs = new_counter_def default_config_def observation_def update_obj_def
  record_crossing_def determine_direction_def line_intersection_def ccw_def plt_def pgt_def
  and_then_def Let_def appended_def bump_def get_total_count_def example_counter_def car_at_def
  lost_at_def fl_def fpt_def ipt_def ideal_rounding_exact update.simps

section \<open>Lemmas on the loop body\<close>

lemma and_then_Inr [simp]: "and_then (Inr x) f = f x"
  by (simp add: and_then_def)

lemma and_then_Inl [simp]: "and_then (Inl e) f = Inl e"
  by (simp add: and_then_def)

lemma and_then_eq_Inl:
  "and_then r f = Inl e \<longleftrightarrow> r = Inl e \<or> (\<exists>x. r = Inr x \<and> f x = Inl e)"
  by (cases r) simp_all

lemma and_then_eq_Inr:
  "and_then r f = Inr y \<longleftrightarrow> (\<exists>x. r = Inr x \<and> f x = Inr y)"
  by (cases r) simp_all

lemma to_float_error: "to_float rnd a = Inl e \<Longrightarrow> e = OverflowError"
  by (cases a) (auto split: pyfloat.splits)

lemma psub_error: "psub rnd a b = Inl e \<Longrightarrow> e = OverflowError"
  by (cases a; cases b) (auto simp: and_then_eq_Inl split: pyfloat.splits)

lemma pmul_error: "pmul rnd a b = Inl e \<Longrightarrow> e = OverflowError"
  by (cases a; cases b) (auto simp: and_then_eq_Inl split: pyfloat.splits)

lemma ccw_error: "ccw rnd A B C = Inl e \<Longrightarrow> e = OverflowError"
  unfolding ccw_def by (auto simp: and_then_eq_Inl dest: psub_error pmul_error)

lemma line_intersection_error: "line_intersection rnd p1 p2 ls le = Inl e \<Longrightarrow> e = OverflowError"
  unfolding line_intersection_def
  by (auto simp: and_then_eq_Inl dest: ccw_error split: if_splits)

lemma counted_not_raising: "counted rnd s obj \<Longrightarrow> \<not> raising rnd s obj"
  by (auto simp: counted_def raising_def split: option.splits)

lemma update_obj_unfold:
  "update_obj rnd clock s obj =
     (case previous_positions s (track_id obj) of
        None \<Rightarrow>
          Inr (s \<lparr> previous_positions := (previous_positions s)(track_id obj \<mapsto> centroid obj) \<rparr>)
      | Some prev_pos \<Rightarrow>
          (case line_intersection rnd prev_pos (centroid obj) (line_start s) (line_end s) of
             Inl e \<Rightarrow> Inl e
           | Inr hit \<Rightarrow>
               if hit \<and> track_id obj \<notin> crossed_ids s then
                 Inr ((record_crossing clock s (track_id obj)
                        (determine_direction s prev_pos (centroid obj)) (class_name obj) (centroid obj))
                      \<lparr> crossed_ids := insert (track_id obj) (crossed_ids s),
                        previous_positions := (previous_positions s)(track_id obj \<mapsto> centroid obj) \<rparr>)
               else
                 Inr (s \<lparr> previous_positions :=
                            (previous_positions s)(track_id obj \<mapsto> centroid obj) \<rparr>)))"
  by (simp add: update_obj_def Let_def record_crossing_def split: option.splits sum.splits)

lemma raising_iff: "raising rnd s obj \<longleftrightarrow> update_obj rnd clock s obj = Inl OverflowError"
proof (cases "previous_positions s (track_id obj)")
  case None
  then show ?thesis by (simp add: raising_def update_obj_unfold)
next
  case (Some prev_pos)
  show ?thesis
  proof (cases "line_intersection rnd prev_pos (centroid obj) (line_start s) (line_end s)")
    case (Inl e)
    then have "e = OverflowError" by (rule line_intersection_error)
    with Some Inl show ?thesis by (simp add: raising_def update_obj_unfold)
  next
    case (Inr hit)
    with Some show ?thesis by (simp add: raising_def update_obj_unfold)
  qed
qed

lemma update_obj_raising:
  "raising rnd s obj \<Longrightarrow> update_obj rnd clock s obj = Inl OverflowError"
  by (simp add: raising_iff [of rnd s obj clock])

lemma update_obj_Inl:
  "update_obj rnd clock s obj = Inl e \<longleftrightarrow> raising rnd s obj \<and> e = OverflowError"
proof (cases "previous_positions s (track_id obj)")
  case None
  then show ?thesis by (simp add: raising_def update_obj_unfold)
next
  case (Some prev_pos)
  show ?thesis
  proof (cases "line_intersection rnd prev_pos (centroid obj) (line_start s) (line_end s)")
    case (Inl e')
    then have "e' = OverflowError" by (rule line_intersection_error)
    with Some Inl show ?thesis by (auto simp: raising_def update_obj_unfold)
  next
    case (Inr hit)
    with Some show ?thesis by (simp add: raising_def update_obj_unfold)
  qed
qed

lemma update_obj_not_raising:
  "\<not> raising rnd s obj \<Longrightarrow> update_obj rnd clock s obj = Inr (after_obj rnd clock s obj)"
proof -
  assume n: "\<not> raising rnd s obj"
  show ?thesis
  proof (cases "update_obj rnd clock s obj")
    case (Inl e)
    with n show ?thesis by (simp add: update_obj_Inl)
  next
    case (Inr s')
    then show ?thesis by (simp add: after_obj_def)
  qed
qed

lemma update_obj_Inr:
  "update_obj rnd clock s obj = Inr s' \<longleftrightarrow> \<not> raising rnd s obj \<and> s' = after_obj rnd clock s obj"
proof (cases "raising rnd s obj")
  case True
  then show ?thesis by (simp add: update_obj_raising)
next
  case False
  then show ?thesis by (auto simp: update_obj_not_raising)
qed


lemma after_obj_unfold:
  "after_obj rnd clock s obj =
     (if raising rnd s obj then s
      else if counted rnd s obj then
        (record_crossing clock s (track_id obj)
           (determine_direction s (the (previous_positions s (track_id obj))) (centroid obj))
           (class_name obj) (centroid obj))
        \<lparr> crossed_ids := insert (track_id obj) (crossed_ids s),
          previous_positions := (previous_positions s)(track_id obj \<mapsto> centroid obj) \<rparr>
      else s \<lparr> previous_positions := (previous_positions s)(track_id obj \<mapsto> centroid obj) \<rparr>)"
proof (cases "previous_positions s (track_id obj)")
  case None
  then show ?thesis
    by (simp add: after_obj_def update_obj_unfold raising_def counted_def)
next
  case (Some prev_pos)
  show ?thesis
  proof (cases "line_intersection rnd prev_pos (centroid obj) (line_start s) (line_end s)")
    case (Inl e)
    with Some show ?thesis
      by (simp add: after_obj_def update_obj_unfold raising_def counted_def)
  next
    case (Inr hit)
    with Some show ?thesis
      by (simp add: after_obj_def update_obj_unfold raising_def counted_def)
  qed
qed


lemma after_obj_fixed [simp]:
  "line_start (after_obj rnd clock s obj) = line_start s"
  "line_end (after_obj rnd clock s obj) = line_end s"
  "direction_type (after_obj rnd clock s obj) = direction_type s"
  "config (after_obj rnd clock s obj) = config s"
  by (simp_all add: after_obj_unfold record_crossing_def Let_def)


lemma after_obj_crossed_ids:
  "crossed_ids (after_obj rnd clock s obj) =
     (if counted rnd s obj then insert (track_id obj) (crossed_ids s) else crossed_ids s)"
  by (simp add: after_obj_unfold counted_not_raising)

lemma after_obj_crossing_events:
  "crossing_events (after_obj rnd clock s obj) =
     (if counted rnd s obj then crossing_events s @ [event_of clock s obj] else crossing_events s)"
  by (simp add: after_obj_unfold counted_not_raising event_of_def record_crossing_def Let_def)

lemma after_obj_counts:
  "count_up (after_obj rnd clock s obj) =
     count_up s + (if counted rnd s obj \<and> direction (event_of clock s obj) = ''up'' then 1 else 0)"
  "count_down (after_obj rnd clock s obj) =
     count_down s + (if counted rnd s obj \<and> direction (event_of clock s obj) = ''down'' then 1 else 0)"
  "count_left (after_obj rnd clock s obj) =
     count_left s + (if counted rnd s obj \<and> direction (event_of clock s obj) = ''left'' then 1 else 0)"
  "count_right (after_obj rnd clock s obj) =
     count_right s + (if counted rnd s obj \<and> direction (event_of clock s obj) = ''right'' then 1 else 0)"
  by (simp_all add: after_obj_unfold counted_not_raising event_of_def record_crossing_def
        Let_def determine_direction_def)

lemma event_of_simps [simp]:
  "event_track_id (event_of clock s obj) = track_id obj"
  "event_class_name (event_of clock s obj) = class_name obj"
  "event_centroid (event_of clock s obj) = centroid obj"
  "timestamp (event_of clock s obj) = clock (now_calls s)"
  "direction (event_of clock s obj) =
     determine_direction s (the (previous_positions s (track_id obj))) (centroid obj)"
  by (simp_all add: event_of_def)

lemma update_Cons:
  "update rnd clock s (obj # objs) =
     (if raising rnd s obj then (Some OverflowError, s)
      else update rnd clock (after_obj rnd clock s obj) objs)"
  by (simp add: update_obj_raising update_obj_not_raising)

declare update.simps(2) [simp del]


lemma determine_direction_labels:
  "determine_direction s p c \<in> labels (direction_type s)"
  by (simp add: determine_direction_def labels_def)


section \<open>Events appended by a run of updates\<close>

lemma bump_simps [simp]:
  "bump d [] = 0"
  "bump d (es @ fs) = bump d es + bump d fs"
  "bump d [e] = (if direction e = d then 1 else 0)"
  by (simp_all add: bump_def)


lemma grows_refl: "grows s s []"
  by (simp add: grows_def)

lemma grows_trans:
  assumes "grows s s' n1" and "grows s' s'' n2"
  shows "grows s s'' (n1 @ n2)"
  using assms unfolding grows_def by (auto simp: image_Un)

lemma grows_after_obj:
  "grows s (after_obj rnd clock s obj) (if counted rnd s obj then [event_of clock s obj] else [])"
proof (cases "counted rnd s obj")
  case True
  then have "track_id obj \<notin> crossed_ids s"
    by (simp add: counted_def split: option.splits)
  with True show ?thesis
    by (simp add: grows_def after_obj_crossed_ids after_obj_crossing_events after_obj_counts
          determine_direction_labels)
next
  case False
  then show ?thesis
    by (simp add: grows_def after_obj_crossed_ids after_obj_crossing_events after_obj_counts)
qed

lemma grows_update: "\<exists>new. grows s (snd (update rnd clock s objs)) new"
proof (induction objs arbitrary: s)
  case Nil
  show ?case using grows_refl by auto
next
  case (Cons obj objs)
  show ?case
  proof (cases "raising rnd s obj")
    case True
    then show ?thesis using grows_refl by (auto simp: update_Cons)
  next
    case False
    from Cons.IH [of "after_obj rnd clock s obj"] obtain n2
      where "grows (after_obj rnd clock s obj)
               (snd (update rnd clock (after_obj rnd clock s obj) objs)) n2" ..
    with grows_after_obj [of s rnd clock obj] False show ?thesis
      using grows_trans by (fastforce simp: update_Cons)
  qed
qed

lemma grows_updates: "\<exists>new. grows s (updates rnd clock s ticks) new"
proof (induction ticks arbitrary: s)
  case Nil
  show ?case using grows_refl by auto
next
  case (Cons tick ticks)
  from Cons.IH [of "snd (update rnd clock s tick)"] obtain n2
    where "grows (snd (update rnd clock s tick))
             (updates rnd clock (snd (update rnd clock s tick)) ticks) n2" ..
  moreover obtain n1 where "grows s (snd (update rnd clock s tick)) n1"
    using grows_update by blast
  ultimately show ?case
    using grows_trans by fastforce
qed



section \<open>The intersection primitive and the classifier\<close>

lemma fgt_irrefl: "\<not> fgt x x"
  by (cases x) simp_all

lemma pgt_irrefl: "\<not> pgt a a"
  by (simp add: pgt_def fgt_irrefl)

lemma ccw_products:
  "ccw rnd A B C =
     and_then (left_product rnd A B C) (\<lambda>l.
     and_then (right_product rnd A B C) (\<lambda>r. Inr (pgt l r)))"
  by (simp add: ccw_def left_product_def right_product_def and_then_def split: sum.splits)

lemma collinear_ccw: "collinear rnd A B C \<Longrightarrow> ccw rnd A B C = Inr False"
  by (auto simp: collinear_def ccw_products pgt_def fgt_irrefl split: sum.splits)

lemma line_intersection_same_side:
  "ccw rnd p1 ls le = Inr a \<Longrightarrow> ccw rnd p2 ls le = Inr a \<Longrightarrow>
   line_intersection rnd p1 p2 ls le = Inr False"
  by (simp add: line_intersection_def)

lemma line_intersection_zero_step: "line_intersection rnd p1 p1 ls le \<noteq> Inr True"
  by (cases "ccw rnd p1 ls le") (simp_all add: line_intersection_def)

lemma line_intersection_zero_line: "line_intersection rnd p1 p2 ls ls \<noteq> Inr True"
proof (cases "ccw rnd p1 ls ls")
  case (Inl e)
  then show ?thesis by (simp add: line_intersection_def)
next
  case a: (Inr a)
  show ?thesis
  proof (cases "ccw rnd p2 ls ls")
    case (Inl e)
    with a show ?thesis by (simp add: line_intersection_def)
  next
    case b: (Inr b)
    show ?thesis
    proof (cases "ccw rnd p1 p2 ls")
      case (Inl e)
      with a b show ?thesis by (simp add: line_intersection_def)
    next
      case (Inr c)
      with a b show ?thesis by (simp add: line_intersection_def)
    qed
  qed
qed

lemma psub_float:
  "is_float a \<Longrightarrow> converts rnd b \<Longrightarrow> \<exists>x. psub rnd b a = Inr (PyFloat x)"
  by (cases a; cases b) (auto simp: converts_def split: sum.splits pyfloat.splits)

lemma pmul_float: "pmul rnd (PyFloat x) (PyFloat y) = Inr (PyFloat (fmul rnd x y))"
  by simp

lemma converts_float: "is_float a \<Longrightarrow> converts rnd a"
  by (cases a) (simp_all add: converts_def)

lemma in_range_float: "float_point p \<Longrightarrow> in_range rnd p"
  by (simp add: float_point_def in_range_def converts_float)

lemma ccw_float_total:
  assumes "float_point A" and "in_range rnd B" and "in_range rnd C"
  shows "\<exists>b. ccw rnd A B C = Inr b"
proof -
  from assms obtain d1 where d1: "psub rnd (snd C) (snd A) = Inr (PyFloat d1)"
    using psub_float [of "snd A" rnd "snd C"] by (auto simp: float_point_def in_range_def)
  from assms obtain d2 where d2: "psub rnd (fst B) (fst A) = Inr (PyFloat d2)"
    using psub_float [of "fst A" rnd "fst B"] by (auto simp: float_point_def in_range_def)
  from assms obtain d3 where d3: "psub rnd (snd B) (snd A) = Inr (PyFloat d3)"
    using psub_float [of "snd A" rnd "snd B"] by (auto simp: float_point_def in_range_def)
  from assms obtain d4 where d4: "psub rnd (fst C) (fst A) = Inr (PyFloat d4)"
    using psub_float [of "fst A" rnd "fst C"] by (auto simp: float_point_def in_range_def)
  show ?thesis
    by (simp add: ccw_def d1 d2 d3 d4)
qed

lemma ccw_int_total:
  assumes "int_point A" and "int_point B" and "int_point C"
  shows "\<exists>b. ccw rnd A B C = Inr b"
proof -
  from assms obtain a1 a2 b1 b2 c1 c2
    where "A = (PyInt a1, PyInt a2)" "B = (PyInt b1, PyInt b2)" "C = (PyInt c1, PyInt c2)"
    by (cases A; cases B; cases C; cases "fst A"; cases "snd A"; cases "fst B"; cases "snd B";
        cases "fst C"; cases "snd C") (auto simp: int_point_def)
  then show ?thesis
    by (simp add: ccw_def)
qed

lemma line_intersection_total:
  assumes "\<exists>a. ccw rnd p1 ls le = Inr a" and "\<exists>b. ccw rnd p2 ls le = Inr b"
    and "\<exists>c. ccw rnd p1 p2 ls = Inr c" and "\<exists>d. ccw rnd p1 p2 le = Inr d"
  shows "\<exists>b. line_intersection rnd p1 p2 ls le = Inr b"
  using assms by (auto simp: line_intersection_def)

lemma line_intersection_float_total:
  assumes "float_point p1" and "float_point p2" and "in_range rnd ls" and "in_range rnd le"
  shows "\<exists>b. line_intersection rnd p1 p2 ls le = Inr b"
proof (rule line_intersection_total)
  show "\<exists>a. ccw rnd p1 ls le = Inr a"
    by (rule ccw_float_total [OF assms(1) assms(3) assms(4)])
  show "\<exists>b. ccw rnd p2 ls le = Inr b"
    by (rule ccw_float_total [OF assms(2) assms(3) assms(4)])
  show "\<exists>c. ccw rnd p1 p2 ls = Inr c"
    by (rule ccw_float_total [OF assms(1) in_range_float [OF assms(2)] assms(3)])
  show "\<exists>d. ccw rnd p1 p2 le = Inr d"
    by (rule ccw_float_total [OF assms(1) in_range_float [OF assms(2)] assms(4)])
qed

lemma line_intersection_int_total:
  assumes "int_point p1" and "int_point p2" and "int_point ls" and "int_point le"
  shows "\<exists>b. line_intersection rnd p1 p2 ls le = Inr b"
  using assms
  by (intro line_intersection_total ccw_int_total)

lemma line_intersection_overflow:
  assumes "is_float (snd p1)" and "\<not> converts rnd (snd le)"
  shows "line_intersection rnd p1 p2 ls le = Inl OverflowError"
proof -
  from assms obtain e where "to_float rnd (snd le) = Inl e"
    by (auto simp: converts_def split: sum.splits)
  moreover from this have "e = OverflowError" by (rule to_float_error)
  ultimately have "psub rnd (snd le) (snd p1) = Inl OverflowError"
    using assms(1) by (cases "snd p1"; cases "snd le") simp_all
  then show ?thesis
    by (simp add: line_intersection_def ccw_def)
qed

lemma exact_numeral:
  "exact_on_ints rnd \<Longrightarrow> \<bar>x\<bar> \<le> 2 ^ 53 \<Longrightarrow> x \<in> \<int> \<Longrightarrow> rnd x = Fin x"
proof -
  assume e: "exact_on_ints rnd" and b: "\<bar>x\<bar> \<le> 2 ^ 53" and i: "x \<in> \<int>"
  from i obtain n :: int where x: "x = of_int n" by (rule Ints_cases)
  with b have "\<bar>real_of_int n\<bar> \<le> 2 ^ 53" by simp
  then have "\<bar>n\<bar> \<le> 2 ^ 53"
    by (metis of_int_abs of_int_le_iff of_int_numeral of_int_power)
  with e x show ?thesis by (simp add: exact_on_ints_def)
qed

lemmas geometry_defs = line_intersection_def ccw_def left_product_def right_product_def
  collinear_def pgt_def plt_def fpt_def ipt_def fl_def ideal_rounding_exact float_point_def
  int_point_def in_range_def converts_def

lemma plt_irrefl: "\<not> plt a a"
  by (simp add: plt_def pgt_irrefl)

text \<open>
  C2 (as amended). \<open>line_intersection\<close> is the orientation test with the strict
  comparison: \<open>ccw\<close> compares the two products, as computed, with \<^verbatim>\<open>>\<close>, which is
  exact and irreflexive, and the result is the conjunction of the two disagreements. A
  point whose two products come out equal therefore counts as not counter-clockwise: a step
  returns false when that holds of both its endpoints against the line, and when it holds
  of its end point while its start point is not counter-clockwise. For the line
  (0,100)-(100,0) the step (0,0)-(100,100) returns true and the step (0,0)-(40,40) false,
  on ints under any rounding and on floats under a rounding that keeps integers up to
  \<open>2^53\<close>. No exception arises when the step is in floats and the line within the range
  of the floats, nor when all coordinates are ints; the only exception there is, is
  OverflowError, and it does arise for an int beyond the range of the floats against a
  float. A step or a line of zero length never returns true.
\<close>

theorem line_intersection_strict:
  "(left_product rnd A B C = Inr l \<and> right_product rnd A B C = Inr r \<longrightarrow>
      ccw rnd A B C = Inr (pgt l r))
   \<and> (pgt (fl x) (fl y) \<longleftrightarrow> y < x) \<and> (pgt (PyInt m) (PyInt n) \<longleftrightarrow> n < m) \<and> \<not> pgt l l
   \<and> (ccw rnd p1 ls le = Inr a \<and> ccw rnd p2 ls le = Inr b
       \<and> ccw rnd p1 p2 ls = Inr c \<and> ccw rnd p1 p2 le = Inr d \<longrightarrow>
         line_intersection rnd p1 p2 ls le = Inr (a \<noteq> b \<and> c \<noteq> d))
   \<and> (collinear rnd p1 ls le \<and> collinear rnd p2 ls le \<longrightarrow>
         line_intersection rnd p1 p2 ls le = Inr False)
   \<and> (ccw rnd p1 ls le = Inr False \<and> collinear rnd p2 ls le \<longrightarrow>
         line_intersection rnd p1 p2 ls le = Inr False)
   \<and> line_intersection rnd (ipt 0 0) (ipt 100 100) (ipt 0 100) (ipt 100 0) = Inr True
   \<and> line_intersection rnd (ipt 0 0) (ipt 40 40) (ipt 0 100) (ipt 100 0) = Inr False
   \<and> (exact_on_ints rnd \<longrightarrow>
         line_intersection rnd (fpt 0 0) (fpt 100 100) (fpt 0 100) (fpt 100 0) = Inr True
         \<and> line_intersection rnd (fpt 0 0) (fpt 40 40) (fpt 0 100) (fpt 100 0) = Inr False)
   \<and> (float_point p1 \<and> float_point p2 \<and> in_range rnd ls \<and> in_range rnd le \<longrightarrow>
         (\<exists>hit. line_intersection rnd p1 p2 ls le = Inr hit))
   \<and> (int_point p1 \<and> int_point p2 \<and> int_point ls \<and> int_point le \<longrightarrow>
         (\<exists>hit. line_intersection rnd p1 p2 ls le = Inr hit))
   \<and> (is_float (snd p1) \<and> \<not> converts rnd (snd le) \<longrightarrow>
         line_intersection rnd p1 p2 ls le = Inl OverflowError)
   \<and> (\<forall>e. line_intersection rnd p1 p2 ls le = Inl e \<longrightarrow> e = OverflowError)
   \<and> line_intersection rnd p1 p1 ls le \<noteq> Inr True
   \<and> line_intersection rnd p1 p2 ls ls \<noteq> Inr True"
proof -
  have s1: "left_product rnd A B C = Inr l \<and> right_product rnd A B C = Inr r \<longrightarrow>
      ccw rnd A B C = Inr (pgt l r)"
    by (simp add: ccw_products)
  have s2: "(pgt (fl x) (fl y) \<longleftrightarrow> y < x) \<and> (pgt (PyInt m) (PyInt n) \<longleftrightarrow> n < m) \<and> \<not> pgt l l"
    by (simp add: pgt_def fl_def pgt_irrefl [unfolded pgt_def])
  have s3: "ccw rnd p1 ls le = Inr a \<and> ccw rnd p2 ls le = Inr b
       \<and> ccw rnd p1 p2 ls = Inr c \<and> ccw rnd p1 p2 le = Inr d \<longrightarrow>
         line_intersection rnd p1 p2 ls le = Inr (a \<noteq> b \<and> c \<noteq> d)"
    by (simp add: line_intersection_def)
  have s4: "collinear rnd p1 ls le \<and> collinear rnd p2 ls le \<longrightarrow>
         line_intersection rnd p1 p2 ls le = Inr False"
    using collinear_ccw line_intersection_same_side by blast
  have s5: "ccw rnd p1 ls le = Inr False \<and> collinear rnd p2 ls le \<longrightarrow>
         line_intersection rnd p1 p2 ls le = Inr False"
    using collinear_ccw line_intersection_same_side by blast
  have s6: "line_intersection rnd (ipt 0 0) (ipt 100 100) (ipt 0 100) (ipt 100 0) = Inr True"
    "line_intersection rnd (ipt 0 0) (ipt 40 40) (ipt 0 100) (ipt 100 0) = Inr False"
    by (simp_all add: line_intersection_def ccw_def ipt_def pgt_def)
  have s7: "exact_on_ints rnd \<longrightarrow>
         line_intersection rnd (fpt 0 0) (fpt 100 100) (fpt 0 100) (fpt 100 0) = Inr True
         \<and> line_intersection rnd (fpt 0 0) (fpt 40 40) (fpt 0 100) (fpt 100 0) = Inr False"
    by (simp add: line_intersection_def ccw_def fpt_def fl_def pgt_def exact_numeral)
  have s8: "float_point p1 \<and> float_point p2 \<and> in_range rnd ls \<and> in_range rnd le \<longrightarrow>
         (\<exists>hit. line_intersection rnd p1 p2 ls le = Inr hit)"
    using line_intersection_float_total by blast
  have s9: "int_point p1 \<and> int_point p2 \<and> int_point ls \<and> int_point le \<longrightarrow>
         (\<exists>hit. line_intersection rnd p1 p2 ls le = Inr hit)"
    using line_intersection_int_total by blast
  have s10: "is_float (snd p1) \<and> \<not> converts rnd (snd le) \<longrightarrow>
         line_intersection rnd p1 p2 ls le = Inl OverflowError"
    using line_intersection_overflow by blast
  have s11: "\<forall>e. line_intersection rnd p1 p2 ls le = Inl e \<longrightarrow> e = OverflowError"
    using line_intersection_error by blast
  from s1 s2 s3 s4 s5 s6 s7 s8 s9 s10 s11
    line_intersection_zero_step [of rnd p1 ls le] line_intersection_zero_line [of rnd p1 p2 ls]
  show ?thesis by blast
qed

text \<open>
  The amended C2 at concrete points: the products and the four orientations of the int
  example; the steps (25,75)-(50,50), along the line, and (0,0)-(50,50), ending on it,
  neither of which intersects; a float step against the default int line; and the line at
  height \<open>10^400\<close>, where the test raises.
\<close>

theorem line_intersection_strict_witness:
  "left_product ideal_rounding (ipt 0 0) (ipt 0 100) (ipt 100 0) = Inr (PyInt 0)
   \<and> right_product ideal_rounding (ipt 0 0) (ipt 0 100) (ipt 100 0) = Inr (PyInt 10000)
   \<and> ccw ideal_rounding (ipt 0 0) (ipt 0 100) (ipt 100 0) = Inr False
   \<and> ccw ideal_rounding (ipt 100 100) (ipt 0 100) (ipt 100 0) = Inr True
   \<and> ccw ideal_rounding (ipt 0 0) (ipt 100 100) (ipt 0 100) = Inr True
   \<and> ccw ideal_rounding (ipt 0 0) (ipt 100 100) (ipt 100 0) = Inr False
   \<and> line_intersection ideal_rounding (ipt 0 0) (ipt 100 100) (ipt 0 100) (ipt 100 0) = Inr True
   \<and> collinear ideal_rounding (fpt 25 75) (fpt 0 100) (fpt 100 0)
   \<and> collinear ideal_rounding (fpt 50 50) (fpt 0 100) (fpt 100 0)
   \<and> line_intersection ideal_rounding (fpt 25 75) (fpt 50 50) (fpt 0 100) (fpt 100 0) = Inr False
   \<and> ccw ideal_rounding (fpt 0 0) (fpt 0 100) (fpt 100 0) = Inr False
   \<and> line_intersection ideal_rounding (fpt 0 0) (fpt 50 50) (fpt 0 100) (fpt 100 0) = Inr False
   \<and> exact_on_ints ideal_rounding
   \<and> line_intersection ideal_rounding (fpt 0 0) (fpt 100 100) (fpt 0 100) (fpt 100 0) = Inr True
   \<and> line_intersection ideal_rounding (fpt 0 0) (fpt 40 40) (fpt 0 100) (fpt 100 0) = Inr False
   \<and> float_point (fpt 640 480) \<and> float_point (fpt 640 520)
   \<and> in_range ideal_rounding (ipt 0 500) \<and> in_range ideal_rounding (ipt 1280 500)
   \<and> (\<exists>hit. line_intersection ideal_rounding (fpt 640 480) (fpt 640 520) (ipt 0 500) (ipt 1280 500)
         = Inr hit)
   \<and> int_point (ipt 0 0) \<and> int_point (ipt 100 100) \<and> int_point (ipt 0 100) \<and> int_point (ipt 100 0)
   \<and> is_float (snd (fpt 640 480)) \<and> \<not> converts ideal_rounding (snd (ipt 1280 huge_int))
   \<and> line_intersection ideal_rounding (fpt 640 480) (fpt 640 520) (ipt 0 huge_int) (ipt 1280 huge_int)
       = Inl OverflowError"
proof -
  have p: "left_product ideal_rounding (ipt 0 0) (ipt 0 100) (ipt 100 0) = Inr (PyInt 0)"
    "right_product ideal_rounding (ipt 0 0) (ipt 0 100) (ipt 100 0) = Inr (PyInt 10000)"
    by (simp_all add: geometry_defs)
  have c: "ccw ideal_rounding (ipt 0 0) (ipt 0 100) (ipt 100 0) = Inr False"
    "ccw ideal_rounding (ipt 100 100) (ipt 0 100) (ipt 100 0) = Inr True"
    "ccw ideal_rounding (ipt 0 0) (ipt 100 100) (ipt 0 100) = Inr True"
    "ccw ideal_rounding (ipt 0 0) (ipt 100 100) (ipt 100 0) = Inr False"
    by (simp_all add: geometry_defs)
  have k: "collinear ideal_rounding (fpt 25 75) (fpt 0 100) (fpt 100 0)"
    "collinear ideal_rounding (fpt 50 50) (fpt 0 100) (fpt 100 0)"
    by (simp_all add: geometry_defs)
  have n: "ccw ideal_rounding (fpt 0 0) (fpt 0 100) (fpt 100 0) = Inr False"
    by (simp add: geometry_defs)
  have f: "float_point (fpt 640 480)" "float_point (fpt 640 520)"
    "in_range ideal_rounding (ipt 0 500)" "in_range ideal_rounding (ipt 1280 500)"
    by (simp_all add: geometry_defs)
  have i: "int_point (ipt 0 0)" "int_point (ipt 100 100)" "int_point (ipt 0 100)"
    "int_point (ipt 100 0)"
    by (simp_all add: geometry_defs)
  have h: "is_float (snd (fpt 640 480))" "\<not> converts ideal_rounding (snd (ipt 1280 huge_int))"
    by (simp_all add: fpt_def fl_def ipt_def converts_def ideal_rounding_huge)
  note w1 = line_intersection_strict [where rnd = ideal_rounding and A = "ipt 0 0"
      and B = "ipt 0 100" and C = "ipt 100 0" and l = "PyInt 0" and r = "PyInt 10000"
      and ?p1.0 = "ipt 0 0" and ?p2.0 = "ipt 100 100" and ls = "ipt 0 100" and le = "ipt 100 0"
      and a = False and b = True and c = True and d = False]
  note w2 = line_intersection_strict [where rnd = ideal_rounding
      and ?p1.0 = "fpt 25 75" and ?p2.0 = "fpt 50 50" and ls = "fpt 0 100" and le = "fpt 100 0"]
  note w3 = line_intersection_strict [where rnd = ideal_rounding
      and ?p1.0 = "fpt 0 0" and ?p2.0 = "fpt 50 50" and ls = "fpt 0 100" and le = "fpt 100 0"]
  note w4 = line_intersection_strict [where rnd = ideal_rounding
      and ?p1.0 = "fpt 640 480" and ?p2.0 = "fpt 640 520" and ls = "ipt 0 500" and le = "ipt 1280 500"]
  note w5 = line_intersection_strict [where rnd = ideal_rounding
      and ?p1.0 = "fpt 640 480" and ?p2.0 = "fpt 640 520" and ls = "ipt 0 huge_int"
      and le = "ipt 1280 huge_int"]
  from w1 p c have a1: "line_intersection ideal_rounding (ipt 0 0) (ipt 100 100) (ipt 0 100) (ipt 100 0)
      = Inr True"
    by blast
  from w2 k have a2: "line_intersection ideal_rounding (fpt 25 75) (fpt 50 50) (fpt 0 100) (fpt 100 0)
      = Inr False"
    by blast
  from w3 k n have a3: "line_intersection ideal_rounding (fpt 0 0) (fpt 50 50) (fpt 0 100) (fpt 100 0)
      = Inr False"
    by blast
  from w1 exact_on_ints_ideal
  have a4: "line_intersection ideal_rounding (fpt 0 0) (fpt 100 100) (fpt 0 100) (fpt 100 0) = Inr True"
    "line_intersection ideal_rounding (fpt 0 0) (fpt 40 40) (fpt 0 100) (fpt 100 0) = Inr False"
    by blast+
  from w4 f
  have a5: "\<exists>hit. line_intersection ideal_rounding (fpt 640 480) (fpt 640 520) (ipt 0 500) (ipt 1280 500)
         = Inr hit"
    by blast
  from w5 h
  have a6: "line_intersection ideal_rounding (fpt 640 480) (fpt 640 520) (ipt 0 huge_int)
      (ipt 1280 huge_int) = Inl OverflowError"
    by blast
  from p c k n f i h a1 a2 a3 a4 a5 a6 exact_on_ints_ideal show ?thesis
    by blast
qed

text \<open>
  C2 as stated fails: the point (50,50) is exactly collinear with the line (0,100)-(100,0),
  the two products are equal, and the step (50,50)-(100,100), which touches the line there,
  returns true, in ints and in floats.
\<close>

theorem collinear_touch_counterexample:
  "collinear ideal_rounding (ipt 50 50) (ipt 0 100) (ipt 100 0)
   \<and> line_intersection ideal_rounding (ipt 50 50) (ipt 100 100) (ipt 0 100) (ipt 100 0) = Inr True
   \<and> collinear ideal_rounding (fpt 50 50) (fpt 0 100) (fpt 100 0)
   \<and> line_intersection ideal_rounding (fpt 50 50) (fpt 100 100) (fpt 0 100) (fpt 100 0) = Inr True"
  by (simp add: geometry_defs)

text \<open>
  C3. The direction label depends on the previous centroid, the current centroid and the
  orientation tag only. Under the tag vertical it is up when the current y is less than the
  previous y and down otherwise; under the tag horizontal it is left when the current x is
  less than the previous x and right otherwise; equal coordinates give down and right. The
  comparison is Python's less-than, which is the order of the exact values on finite floats
  and on ints, also between the two. The three examples of the specification hold.
\<close>

theorem determine_direction_classifier:
  "(direction_type s = direction_type s' \<longrightarrow>
      determine_direction s p c = determine_direction s' p c)
   \<and> (direction_type s = ''vertical'' \<longrightarrow>
        determine_direction s p c = (if plt (snd c) (snd p) then ''up'' else ''down''))
   \<and> (direction_type s = ''horizontal'' \<longrightarrow>
        determine_direction s p c = (if plt (fst c) (fst p) then ''left'' else ''right''))
   \<and> (plt (fl a) (fl b) \<longleftrightarrow> a < b) \<and> (plt (PyInt m) (PyInt n) \<longleftrightarrow> m < n)
   \<and> (plt (PyInt m) (fl b) \<longleftrightarrow> of_int m < b) \<and> (plt (fl a) (PyInt n) \<longleftrightarrow> a < of_int n)
   \<and> \<not> plt x x
   \<and> (direction_type s = ''vertical'' \<longrightarrow>
        determine_direction s (fpt 5 10) (fpt 5 4) = ''up''
        \<and> determine_direction s (fpt 5 10) (fpt 5 10) = ''down''
        \<and> determine_direction s (ipt 5 10) (ipt 5 4) = ''up''
        \<and> determine_direction s (ipt 5 10) (ipt 5 10) = ''down'')
   \<and> (direction_type s = ''horizontal'' \<longrightarrow>
        determine_direction s (fpt 10 5) (fpt 4 5) = ''left''
        \<and> determine_direction s (ipt 10 5) (ipt 4 5) = ''left'')"
  by (simp add: determine_direction_def plt_def pgt_def fl_def fpt_def ipt_def fgt_irrefl)

text \<open>The witness of C3: the default counter is tagged vertical; retagged, horizontal.\<close>

theorem determine_direction_classifier_witness:
  "direction_type example_counter = direction_type (example_counter \<lparr> count_up := 3 \<rparr>)
   \<and> determine_direction example_counter (fpt 1 2) (fpt 3 4)
       = determine_direction (example_counter \<lparr> count_up := 3 \<rparr>) (fpt 1 2) (fpt 3 4)
   \<and> direction_type example_counter = ''vertical''
   \<and> determine_direction example_counter (fpt 5 10) (fpt 5 4) = ''up''
   \<and> determine_direction example_counter (fpt 5 10) (fpt 5 10) = ''down''
   \<and> direction_type (example_counter \<lparr> direction_type := ''horizontal'' \<rparr>) = ''horizontal''
   \<and> determine_direction (example_counter \<lparr> direction_type := ''horizontal'' \<rparr>)
        (fpt 10 5) (fpt 4 5) = ''left''"
proof -
  have h1: "direction_type example_counter = direction_type (example_counter \<lparr> count_up := 3 \<rparr>)"
    by simp
  have h2: "direction_type example_counter = ''vertical''"
    by (simp add: example_counter_def new_counter_def default_config_def)
  have h3: "direction_type (example_counter \<lparr> direction_type := ''horizontal'' \<rparr>) = ''horizontal''"
    by simp
  from h1 h2 h3
    determine_direction_classifier [where s = example_counter
      and s' = "example_counter \<lparr> count_up := 3 \<rparr>" and p = "fpt 1 2" and c = "fpt 3 4"]
    determine_direction_classifier
      [where s = "example_counter \<lparr> direction_type := ''horizontal'' \<rparr>"]
  show ?thesis by blast
qed

section \<open>The engine: deduplication, counters, first sighting, reset\<close>



lemma bump_nonneg: "0 \<le> bump d es"
  by (simp add: bump_def)

lemma grows_mono:
  assumes "grows s s' new"
  shows "count_up s \<le> count_up s'" "count_down s \<le> count_down s'"
    "count_left s \<le> count_left s'" "count_right s \<le> count_right s'"
    "get_total_count s \<le> get_total_count s'"
  using assms bump_nonneg [of "''up''" new] bump_nonneg [of "''down''" new]
    bump_nonneg [of "''left''" new] bump_nonneg [of "''right''" new]
  by (simp_all add: grows_def get_total_count_def)

text \<open>
  C8. One update call never lowers a direction counter nor the total, whether it returns or
  raises, and so no sequence of update calls does; the total is the sum of the four
  direction counters, and it is the value that the statistics report under the key total.
\<close>

theorem counters_monotone:
  "get_total_count s \<le> get_total_count (snd (update rnd clock s objs))
   \<and> count_up s \<le> count_up (snd (update rnd clock s objs))
   \<and> count_down s \<le> count_down (snd (update rnd clock s objs))
   \<and> count_left s \<le> count_left (snd (update rnd clock s objs))
   \<and> count_right s \<le> count_right (snd (update rnd clock s objs))
   \<and> get_total_count s \<le> get_total_count (updates rnd clock s ticks)
   \<and> count_up s \<le> count_up (updates rnd clock s ticks)
   \<and> count_down s \<le> count_down (updates rnd clock s ticks)
   \<and> count_left s \<le> count_left (updates rnd clock s ticks)
   \<and> count_right s \<le> count_right (updates rnd clock s ticks)
   \<and> get_total_count s = count_up s + count_down s + count_left s + count_right s
   \<and> get_statistics s ''total'' = Some (get_total_count s)"
proof -
  obtain n1 where g1: "grows s (snd (update rnd clock s objs)) n1"
    using grows_update by blast
  obtain n2 where g2: "grows s (updates rnd clock s ticks) n2"
    using grows_updates by blast
  have "get_statistics s ''total'' = Some (get_total_count s)"
    by (simp add: get_statistics_def)
  with grows_mono [OF g1] grows_mono [OF g2] show ?thesis
    by (simp add: get_total_count_def)
qed

text \<open>
  The witness of C8: after identity 7 has crossed downwards the total is 1, from 0.
\<close>

theorem counters_monotone_witness:
  "get_total_count example_counter = 0
   \<and> get_total_count (snd (update ideal_rounding fixed_clock
        (snd (update ideal_rounding fixed_clock example_counter [car_at 7 640 480]))
        [car_at 7 640 520])) = 1
   \<and> get_total_count (snd (update ideal_rounding fixed_clock example_counter [car_at 7 640 480]))
       \<le> get_total_count (snd (update ideal_rounding fixed_clock
            (snd (update ideal_rounding fixed_clock example_counter [car_at 7 640 480]))
            [car_at 7 640 520]))
   \<and> get_statistics (snd (update ideal_rounding fixed_clock
        (snd (update ideal_rounding fixed_clock example_counter [car_at 7 640 480]))
        [car_at 7 640 520])) ''total''
       = Some 1"
proof -
  have a: "get_total_count example_counter = 0"
    by (simp add: eval_defs)
  have b: "get_total_count (snd (update ideal_rounding fixed_clock
        (snd (update ideal_rounding fixed_clock example_counter [car_at 7 640 480]))
        [car_at 7 640 520])) = 1"
    by (simp add: eval_defs)
  from counters_monotone
      [of "snd (update ideal_rounding fixed_clock example_counter [car_at 7 640 480])"
        ideal_rounding fixed_clock "[car_at 7 640 520]" "[]"]
    counters_monotone [of "snd (update ideal_rounding fixed_clock
        (snd (update ideal_rounding fixed_clock example_counter [car_at 7 640 480]))
        [car_at 7 640 520])"
      ideal_rounding fixed_clock "[]" "[]"]
    a b
  show ?thesis by simp
qed

text \<open>
  C6. When no previous position is stored for the identity of an observation, processing
  it only stores its centroid: the loop body returns the old state with that entry set, and
  raises nothing. No event is appended, no counter and no crossed flag changes, and since
  the result does not mention the line, no intersection test bears on it, wherever the
  centroid lies.
\<close>

theorem first_sighting_noop:
  "previous_positions s (track_id obj) = None \<longrightarrow>
     update_obj rnd clock s obj
       = Inr (s \<lparr> previous_positions := (previous_positions s)(track_id obj \<mapsto> centroid obj) \<rparr>)
     \<and> update rnd clock s [obj]
       = (None, s \<lparr> previous_positions := (previous_positions s)(track_id obj \<mapsto> centroid obj) \<rparr>)
     \<and> crossing_events (snd (update rnd clock s [obj])) = crossing_events s
     \<and> crossed_ids (snd (update rnd clock s [obj])) = crossed_ids s
     \<and> count_up (snd (update rnd clock s [obj])) = count_up s
     \<and> count_down (snd (update rnd clock s [obj])) = count_down s
     \<and> count_left (snd (update rnd clock s [obj])) = count_left s
     \<and> count_right (snd (update rnd clock s [obj])) = count_right s
     \<and> previous_positions (snd (update rnd clock s [obj])) (track_id obj) = Some (centroid obj)"
proof
  assume n: "previous_positions s (track_id obj) = None"
  then have u: "update_obj rnd clock s obj
       = Inr (s \<lparr> previous_positions := (previous_positions s)(track_id obj \<mapsto> centroid obj) \<rparr>)"
    by (simp add: update_obj_unfold)
  then have "update rnd clock s [obj]
       = (None, s \<lparr> previous_positions := (previous_positions s)(track_id obj \<mapsto> centroid obj) \<rparr>)"
    by (simp add: update.simps)
  with u show "update_obj rnd clock s obj
       = Inr (s \<lparr> previous_positions := (previous_positions s)(track_id obj \<mapsto> centroid obj) \<rparr>)
     \<and> update rnd clock s [obj]
       = (None, s \<lparr> previous_positions := (previous_positions s)(track_id obj \<mapsto> centroid obj) \<rparr>)
     \<and> crossing_events (snd (update rnd clock s [obj])) = crossing_events s
     \<and> crossed_ids (snd (update rnd clock s [obj])) = crossed_ids s
     \<and> count_up (snd (update rnd clock s [obj])) = count_up s
     \<and> count_down (snd (update rnd clock s [obj])) = count_down s
     \<and> count_left (snd (update rnd clock s [obj])) = count_left s
     \<and> count_right (snd (update rnd clock s [obj])) = count_right s
     \<and> previous_positions (snd (update rnd clock s [obj])) (track_id obj) = Some (centroid obj)"
    by simp
qed

text \<open>
  The witness of C6: identity 7 first seen at (640,500), a point of the line itself.
\<close>

theorem first_sighting_noop_witness:
  "previous_positions example_counter (track_id (car_at 7 640 500)) = None
   \<and> collinear ideal_rounding (centroid (car_at 7 640 500))
        (line_start example_counter) (line_end example_counter)
   \<and> update ideal_rounding fixed_clock example_counter [car_at 7 640 500]
       = (None, example_counter \<lparr> previous_positions := [7 \<mapsto> fpt 640 500] \<rparr>)
   \<and> crossing_events (snd (update ideal_rounding fixed_clock example_counter [car_at 7 640 500])) = []
   \<and> count_down (snd (update ideal_rounding fixed_clock example_counter [car_at 7 640 500])) = 0"
proof -
  have h: "previous_positions example_counter (track_id (car_at 7 640 500)) = None"
    by (simp add: eval_defs)
  have c: "collinear ideal_rounding (centroid (car_at 7 640 500))
        (line_start example_counter) (line_end example_counter)"
    by (simp add: eval_defs geometry_defs)
  have t: "track_id (car_at 7 640 500) = 7" "centroid (car_at 7 640 500) = fpt 640 500"
    "previous_positions example_counter = Map.empty"
    "crossing_events example_counter = []" "count_down example_counter = 0"
    by (simp_all add: car_at_def observation_def example_counter_def new_counter_def)
  from first_sighting_noop [of example_counter "car_at 7 640 500" ideal_rounding fixed_clock] h
  have "update ideal_rounding fixed_clock example_counter [car_at 7 640 500]
       = (None, example_counter \<lparr> previous_positions :=
            (previous_positions example_counter)(track_id (car_at 7 640 500)
               \<mapsto> centroid (car_at 7 640 500)) \<rparr>)
     \<and> crossing_events (snd (update ideal_rounding fixed_clock example_counter [car_at 7 640 500]))
          = crossing_events example_counter
     \<and> count_down (snd (update ideal_rounding fixed_clock example_counter [car_at 7 640 500]))
          = count_down example_counter"
    by blast
  with h c t show ?thesis
    by simp
qed

text \<open>
  C7. After reset the statistics map total, up, down, left and right to zero, the event log
  is empty, and the stored positions and the crossed set are empty, while the line and the
  orientation tag stay. Hence any observation processed next is a first sighting: it only
  stores its centroid, whether or not its identity was seen or had crossed before.
\<close>

theorem reset_semantics:
  "get_statistics (reset s)
     = [''total'' \<mapsto> 0, ''up'' \<mapsto> 0, ''down'' \<mapsto> 0, ''left'' \<mapsto> 0, ''right'' \<mapsto> 0]
   \<and> crossing_events (reset s) = []
   \<and> previous_positions (reset s) = Map.empty
   \<and> crossed_ids (reset s) = {}
   \<and> count_up (reset s) = 0 \<and> count_down (reset s) = 0
   \<and> count_left (reset s) = 0 \<and> count_right (reset s) = 0
   \<and> line_start (reset s) = line_start s \<and> line_end (reset s) = line_end s
   \<and> direction_type (reset s) = direction_type s
   \<and> update_obj rnd clock (reset s) obj
       = Inr ((reset s) \<lparr> previous_positions := [track_id obj \<mapsto> centroid obj] \<rparr>)"
  by (simp add: update_obj_unfold reset_def get_statistics_def get_total_count_def)

text \<open>
  The witness of C7: identity 7 has crossed; after reset the statistics are zero, and the
  same identity, observed again at (640,480) and (640,520), is counted afresh.
\<close>

theorem reset_semantics_witness:
  "7 \<in> crossed_ids (updates ideal_rounding fixed_clock example_counter
        [[car_at 7 640 480], [car_at 7 640 520]])
   \<and> get_statistics (reset
        (updates ideal_rounding fixed_clock example_counter
           [[car_at 7 640 480], [car_at 7 640 520]])) ''total''
       = Some 0
   \<and> crossing_events (snd (update ideal_rounding fixed_clock (reset
        (updates ideal_rounding fixed_clock example_counter
           [[car_at 7 640 480], [car_at 7 640 520]]))
        [car_at 7 640 520])) = []
   \<and> count_down (updates ideal_rounding fixed_clock (reset
        (updates ideal_rounding fixed_clock example_counter
           [[car_at 7 640 480], [car_at 7 640 520]]))
        [[car_at 7 640 480], [car_at 7 640 520]]) = 1"
proof -
  have h: "7 \<in> crossed_ids
      (updates ideal_rounding fixed_clock example_counter [[car_at 7 640 480], [car_at 7 640 520]])"
    by (simp add: eval_defs)
  have c: "count_down (updates ideal_rounding fixed_clock (reset
        (updates ideal_rounding fixed_clock example_counter
           [[car_at 7 640 480], [car_at 7 640 520]]))
        [[car_at 7 640 480], [car_at 7 640 520]]) = 1"
    by (simp add: eval_defs reset_def)
  from reset_semantics
    [of "updates ideal_rounding fixed_clock example_counter
           [[car_at 7 640 480], [car_at 7 640 520]]"
        ideal_rounding fixed_clock "car_at 7 640 520"]
  have "get_statistics (reset
        (updates ideal_rounding fixed_clock example_counter
           [[car_at 7 640 480], [car_at 7 640 520]])) ''total''
       = Some 0
   \<and> crossing_events (snd (update ideal_rounding fixed_clock (reset
        (updates ideal_rounding fixed_clock example_counter
           [[car_at 7 640 480], [car_at 7 640 520]]))
        [car_at 7 640 520])) = []"
    by (simp add: update.simps)
  with h c show ?thesis by blast
qed

section \<open>Orientation and the counters\<close>

lemma bump_zero: "direction ` set new \<subseteq> S \<Longrightarrow> d \<notin> S \<Longrightarrow> bump d new = 0"
  by (auto simp: bump_def filter_empty_conv)

lemma oriented_grows:
  assumes "oriented s" and "grows s s' new"
  shows "oriented s'"
proof -
  from assms(2) have l: "direction ` set new \<subseteq> labels (direction_type s)"
    and d: "direction_type s' = direction_type s"
    and e: "crossing_events s' = crossing_events s @ new"
    by (simp_all add: grows_def)
  show ?thesis
  proof (cases "direction_type s = ''vertical''")
    case True
    with l have "bump ''left'' new = 0" "bump ''right'' new = 0"
      by (simp_all add: bump_zero [where S = "{''up'', ''down''}"] labels_def)
    with True assms l d e show ?thesis
      by (simp add: oriented_def grows_def image_Un)
  next
    case False
    with l have "bump ''up'' new = 0" "bump ''down'' new = 0"
      by (simp_all add: bump_zero [where S = "{''left'', ''right''}"] labels_def)
    with False assms l d e show ?thesis
      by (simp add: oriented_def grows_def image_Un)
  qed
qed

lemma oriented_reset: "oriented (reset s)"
  by (simp add: oriented_def reset_def)

lemma oriented_new_counter: "oriented (new_counter cfg x1 y1 x2 y2)"
  by (simp add: oriented_def new_counter_def)

lemma oriented_run: "oriented s \<Longrightarrow> oriented (run rnd clock s cs)"
proof (induction cs arbitrary: s)
  case Nil
  then show ?case by simp
next
  case (Cons c cs)
  show ?case
  proof (cases c)
    case (Update objs)
    obtain new where "grows s (snd (update rnd clock s objs)) new"
      using grows_update by blast
    with Cons.prems have "oriented (snd (update rnd clock s objs))"
      by (rule oriented_grows)
    with Cons.IH Update show ?thesis by simp
  next
    case Reset
    with Cons.IH [OF oriented_reset] show ?thesis by simp
  qed
qed

lemma direction_type_update [simp]:
  "direction_type (snd (update rnd clock s objs)) = direction_type s"
proof -
  obtain new where "grows s (snd (update rnd clock s objs)) new"
    using grows_update by blast
  then show ?thesis by (simp add: grows_def)
qed

lemma direction_type_run [simp]: "direction_type (run rnd clock s cs) = direction_type s"
proof (induction cs arbitrary: s)
  case Nil
  show ?case by simp
next
  case (Cons c cs)
  show ?case
  proof (cases c)
    case (Update objs)
    with Cons.IH show ?thesis by simp
  next
    case Reset
    with Cons.IH show ?thesis by (simp add: reset_def)
  qed
qed

lemma update_obj_retag:
  assumes "direction_type s \<noteq> ''vertical''"
  shows "update_obj rnd clock (s \<lparr> direction_type := ''horizontal'' \<rparr>) obj
     = (case update_obj rnd clock s obj of
          Inl e \<Rightarrow> Inl e
        | Inr s' \<Rightarrow> Inr (s' \<lparr> direction_type := ''horizontal'' \<rparr>))"
proof (cases "previous_positions s (track_id obj)")
  case None
  then show ?thesis by (simp add: update_obj_unfold)
next
  case (Some prev_pos)
  show ?thesis
  proof (cases "line_intersection rnd prev_pos (centroid obj) (line_start s) (line_end s)")
    case (Inl e)
    with Some show ?thesis by (simp add: update_obj_unfold)
  next
    case (Inr hit)
    with Some assms show ?thesis
      by (simp add: update_obj_unfold record_crossing_def determine_direction_def Let_def)
  qed
qed

lemma update_retag:
  "direction_type s \<noteq> ''vertical'' \<Longrightarrow>
   update rnd clock (s \<lparr> direction_type := ''horizontal'' \<rparr>) objs
     = (fst (update rnd clock s objs),
        (snd (update rnd clock s objs)) \<lparr> direction_type := ''horizontal'' \<rparr>)"
proof (induction objs arbitrary: s)
  case Nil
  show ?case by simp
next
  case (Cons obj objs)
  show ?case
  proof (cases "update_obj rnd clock s obj")
    case (Inl e)
    with Cons.prems show ?thesis
      by (simp add: update.simps update_obj_retag)
  next
    case (Inr s')
    then have "s' = after_obj rnd clock s obj"
      by (simp add: update_obj_Inr)
    with Cons.prems have "direction_type s' \<noteq> ''vertical''"
      by simp
    from Cons.IH [OF this] Inr Cons.prems show ?thesis
      by (simp add: update.simps update_obj_retag)
  qed
qed

lemma run_retag:
  "direction_type s \<noteq> ''vertical'' \<Longrightarrow>
   run rnd clock (s \<lparr> direction_type := ''horizontal'' \<rparr>) cs
     = (run rnd clock s cs) \<lparr> direction_type := ''horizontal'' \<rparr>"
proof (induction cs arbitrary: s)
  case Nil
  show ?case by simp
next
  case (Cons c cs)
  show ?case
  proof (cases c)
    case (Update objs)
    from Cons.prems have "direction_type (snd (update rnd clock s objs)) \<noteq> ''vertical''"
      by simp
    from Cons.IH [OF this] Cons.prems Update show ?thesis
      by (simp add: update_retag)
  next
    case Reset
    have "reset (s \<lparr> direction_type := ''horizontal'' \<rparr>)
        = (reset s) \<lparr> direction_type := ''horizontal'' \<rparr>"
      by (simp add: reset_def)
    moreover have "direction_type (reset s) \<noteq> ''vertical''"
      using Cons.prems by (simp add: reset_def)
    ultimately show ?thesis
      using Cons.IH [of "reset s"] Reset by simp
  qed
qed

text \<open>
  C10. Take a counter as the constructor returns it and any sequence of update and reset
  calls, under any rounding. If the configured tag is the string vertical, every logged
  event has direction up or down and the left and right counters are zero. For any other
  tag, whatever the string, every logged event has direction left or right, the up and down
  counters are zero, and the run is the one of the same counter tagged horizontal, tag
  apart; the tag makes no call fail.
\<close>

theorem orientation_partitions_counters:
  "LineCounter_init cfg = Inr s0 \<longrightarrow>
     (line_direction (line cfg) = ''vertical'' \<longrightarrow>
        (\<forall>e \<in> set (crossing_events (run rnd clock s0 cs)).
            direction e = ''up'' \<or> direction e = ''down'')
        \<and> count_left (run rnd clock s0 cs) = 0 \<and> count_right (run rnd clock s0 cs) = 0)
     \<and> (line_direction (line cfg) \<noteq> ''vertical'' \<longrightarrow>
        (\<forall>e \<in> set (crossing_events (run rnd clock s0 cs)).
            direction e = ''left'' \<or> direction e = ''right'')
        \<and> count_up (run rnd clock s0 cs) = 0 \<and> count_down (run rnd clock s0 cs) = 0
        \<and> run rnd clock (s0 \<lparr> direction_type := ''horizontal'' \<rparr>) cs
            = (run rnd clock s0 cs) \<lparr> direction_type := ''horizontal'' \<rparr>)"
proof
  assume i: "LineCounter_init cfg = Inr s0"
  then obtain x1 y1 x2 y2 where s0: "s0 = new_counter cfg x1 y1 x2 y2"
    by (auto simp: LineCounter_init_def split: list.splits)
  then have t: "direction_type s0 = line_direction (line cfg)"
    by (simp add: new_counter_def)
  have "oriented s0"
    unfolding s0 by (rule oriented_new_counter)
  then have o: "oriented (run rnd clock s0 cs)"
    by (rule oriented_run)
  have v: "line_direction (line cfg) = ''vertical'' \<longrightarrow>
        (\<forall>e \<in> set (crossing_events (run rnd clock s0 cs)).
            direction e = ''up'' \<or> direction e = ''down'')
        \<and> count_left (run rnd clock s0 cs) = 0 \<and> count_right (run rnd clock s0 cs) = 0"
    using o t by (auto simp: oriented_def labels_def)
  have h: "line_direction (line cfg) \<noteq> ''vertical'' \<longrightarrow>
        (\<forall>e \<in> set (crossing_events (run rnd clock s0 cs)).
            direction e = ''left'' \<or> direction e = ''right'')
        \<and> count_up (run rnd clock s0 cs) = 0 \<and> count_down (run rnd clock s0 cs) = 0"
    using o t by (auto simp: oriented_def labels_def)
  have r: "line_direction (line cfg) \<noteq> ''vertical'' \<longrightarrow>
        run rnd clock (s0 \<lparr> direction_type := ''horizontal'' \<rparr>) cs
            = (run rnd clock s0 cs) \<lparr> direction_type := ''horizontal'' \<rparr>"
    using run_retag [of s0 rnd clock cs] t by simp
  from v h r show "(line_direction (line cfg) = ''vertical'' \<longrightarrow>
        (\<forall>e \<in> set (crossing_events (run rnd clock s0 cs)).
            direction e = ''up'' \<or> direction e = ''down'')
        \<and> count_left (run rnd clock s0 cs) = 0 \<and> count_right (run rnd clock s0 cs) = 0)
     \<and> (line_direction (line cfg) \<noteq> ''vertical'' \<longrightarrow>
        (\<forall>e \<in> set (crossing_events (run rnd clock s0 cs)).
            direction e = ''left'' \<or> direction e = ''right'')
        \<and> count_up (run rnd clock s0 cs) = 0 \<and> count_down (run rnd clock s0 cs) = 0
        \<and> run rnd clock (s0 \<lparr> direction_type := ''horizontal'' \<rparr>) cs
            = (run rnd clock s0 cs) \<lparr> direction_type := ''horizontal'' \<rparr>)"
    by blast
qed

text \<open>
  The witness of C10: the default, vertical configuration, where identity 7 moves from
  (640,480) to (650,520), before and after a reset; and a configuration tagged diagonal,
  where the same step is logged as right.
\<close>

theorem orientation_partitions_counters_witness:
  "LineCounter_init default_config = Inr example_counter
   \<and> line_direction (line default_config) = ''vertical''
   \<and> crossing_events (run ideal_rounding fixed_clock example_counter
        [Update [car_at 7 640 480], Update [car_at 7 650 520], Reset,
         Update [car_at 7 640 480], Update [car_at 7 650 520]])
       = [\<lparr> event_track_id = 7, timestamp = fixed_clock 1, direction = ''down'',
            event_class_name = ''car'', event_centroid = fpt 650 520 \<rparr>]
   \<and> count_left (run ideal_rounding fixed_clock example_counter
        [Update [car_at 7 640 480], Update [car_at 7 650 520], Reset,
         Update [car_at 7 640 480], Update [car_at 7 650 520]]) = 0
   \<and> count_right (run ideal_rounding fixed_clock example_counter
        [Update [car_at 7 640 480], Update [car_at 7 650 520], Reset,
         Update [car_at 7 640 480], Update [car_at 7 650 520]]) = 0
   \<and> LineCounter_init diagonal_config = Inr (new_counter diagonal_config 0 500 1280 500)
   \<and> line_direction (line diagonal_config) \<noteq> ''vertical''
   \<and> crossing_events (run ideal_rounding fixed_clock (new_counter diagonal_config 0 500 1280 500)
        [Update [car_at 7 640 480], Update [car_at 7 650 520]])
       = [\<lparr> event_track_id = 7, timestamp = fixed_clock 0, direction = ''right'',
            event_class_name = ''car'', event_centroid = fpt 650 520 \<rparr>]
   \<and> count_up (run ideal_rounding fixed_clock (new_counter diagonal_config 0 500 1280 500)
        [Update [car_at 7 640 480], Update [car_at 7 650 520]]) = 0
   \<and> count_down (run ideal_rounding fixed_clock (new_counter diagonal_config 0 500 1280 500)
        [Update [car_at 7 640 480], Update [car_at 7 650 520]]) = 0"
proof -
  have i1: "LineCounter_init default_config = Inr example_counter"
    by (simp add: LineCounter_init_def default_config_def example_counter_def)
  have t1: "line_direction (line default_config) = ''vertical''"
    by (simp add: default_config_def)
  have i2: "LineCounter_init diagonal_config = Inr (new_counter diagonal_config 0 500 1280 500)"
    by (simp add: LineCounter_init_def diagonal_config_def)
  have t2: "line_direction (line diagonal_config) \<noteq> ''vertical''"
    by (simp add: diagonal_config_def)
  have e1: "crossing_events (run ideal_rounding fixed_clock example_counter
        [Update [car_at 7 640 480], Update [car_at 7 650 520], Reset,
         Update [car_at 7 640 480], Update [car_at 7 650 520]])
       = [\<lparr> event_track_id = 7, timestamp = fixed_clock 1, direction = ''down'',
            event_class_name = ''car'', event_centroid = fpt 650 520 \<rparr>]"
    by (simp add: eval_defs reset_def fixed_clock_def)
  have e2: "crossing_events (run ideal_rounding fixed_clock (new_counter diagonal_config 0 500 1280 500)
        [Update [car_at 7 640 480], Update [car_at 7 650 520]])
       = [\<lparr> event_track_id = 7, timestamp = fixed_clock 0, direction = ''right'',
            event_class_name = ''car'', event_centroid = fpt 650 520 \<rparr>]"
    by (simp add: eval_defs diagonal_config_def fixed_clock_def)
  from i1 t1 orientation_partitions_counters [of default_config example_counter
        ideal_rounding fixed_clock
        "[Update [car_at 7 640 480], Update [car_at 7 650 520], Reset,
          Update [car_at 7 640 480], Update [car_at 7 650 520]]"]
  have v: "count_left (run ideal_rounding fixed_clock example_counter
        [Update [car_at 7 640 480], Update [car_at 7 650 520], Reset,
         Update [car_at 7 640 480], Update [car_at 7 650 520]]) = 0
   \<and> count_right (run ideal_rounding fixed_clock example_counter
        [Update [car_at 7 640 480], Update [car_at 7 650 520], Reset,
         Update [car_at 7 640 480], Update [car_at 7 650 520]]) = 0"
    by blast
  from i2 t2 orientation_partitions_counters [of diagonal_config
        "new_counter diagonal_config 0 500 1280 500" ideal_rounding fixed_clock
        "[Update [car_at 7 640 480], Update [car_at 7 650 520]]"]
  have h: "count_up (run ideal_rounding fixed_clock (new_counter diagonal_config 0 500 1280 500)
        [Update [car_at 7 640 480], Update [car_at 7 650 520]]) = 0
   \<and> count_down (run ideal_rounding fixed_clock (new_counter diagonal_config 0 500 1280 500)
        [Update [car_at 7 640 480], Update [car_at 7 650 520]]) = 0"
    by blast
  from i1 t1 i2 t2 e1 e2 v h show ?thesis by blast
qed

section \<open>Construction\<close>









section \<open>Non-finite centroids\<close>

lemma fsub_NaN [simp]: "fsub rnd x NaN = NaN" "fsub rnd NaN x = NaN"
  by (cases x; simp)+

lemma fmul_NaN [simp]: "fmul rnd x NaN = NaN" "fmul rnd NaN x = NaN"
  by (cases x; simp)+

lemma fgt_NaN [simp]: "\<not> fgt x NaN" "\<not> fgt NaN x"
  by (cases x; simp)+

lemma pgt_NaN [simp]: "\<not> pgt a (PyFloat NaN)" "\<not> pgt (PyFloat NaN) a"
  by (simp_all add: pgt_def)

lemma psub_NaN:
  "psub rnd a (PyFloat NaN) = Inr y \<Longrightarrow> y = PyFloat NaN"
  "psub rnd (PyFloat NaN) a = Inr y \<Longrightarrow> y = PyFloat NaN"
  by (cases a; auto simp: and_then_eq_Inr)+

lemma pmul_NaN:
  "pmul rnd a (PyFloat NaN) = Inr y \<Longrightarrow> y = PyFloat NaN"
  "pmul rnd (PyFloat NaN) a = Inr y \<Longrightarrow> y = PyFloat NaN"
  by (cases a; auto simp: and_then_eq_Inr)+

lemma ccw_Inr:
  "ccw rnd A B C = Inr v \<longleftrightarrow>
     (\<exists>d1 d2 l d3 d4 r.
        psub rnd (snd C) (snd A) = Inr d1 \<and> psub rnd (fst B) (fst A) = Inr d2
        \<and> pmul rnd d1 d2 = Inr l
        \<and> psub rnd (snd B) (snd A) = Inr d3 \<and> psub rnd (fst C) (fst A) = Inr d4
        \<and> pmul rnd d3 d4 = Inr r \<and> v = pgt l r)"
  unfolding ccw_def by (auto simp: and_then_eq_Inr)

lemma ccw_nan_first: "has_nan A \<Longrightarrow> ccw rnd A B C \<noteq> Inr True"
proof
  assume n: "has_nan A" and "ccw rnd A B C = Inr True"
  then obtain d1 d2 l d3 d4 r
    where d1: "psub rnd (snd C) (snd A) = Inr d1" and d2: "psub rnd (fst B) (fst A) = Inr d2"
      and l: "pmul rnd d1 d2 = Inr l" and g: "pgt l r"
    by (auto simp: ccw_Inr)
  from n have "l = PyFloat NaN"
  proof (unfold has_nan_def, elim disjE)
    assume "fst A = PyFloat NaN"
    with d2 have "d2 = PyFloat NaN" by (simp add: psub_NaN)
    with l show ?thesis by (simp add: pmul_NaN)
  next
    assume "snd A = PyFloat NaN"
    with d1 have "d1 = PyFloat NaN" by (simp add: psub_NaN)
    with l show ?thesis by (simp add: pmul_NaN)
  qed
  with g show False by simp
qed



lemma nan_previous_no_intersection:
  assumes "has_nan p1"
  shows "line_intersection rnd p1 p2 ls le \<noteq> Inr True"
proof
  assume "line_intersection rnd p1 p2 ls le = Inr True"
  then obtain c d where "ccw rnd p1 p2 ls = Inr c" "ccw rnd p1 p2 le = Inr d" "c \<noteq> d"
    by (auto simp: line_intersection_def and_then_eq_Inr split: if_splits)
  with ccw_nan_first [OF assms, of rnd p2 ls] ccw_nan_first [OF assms, of rnd p2 le]
  show False by (cases c; cases d) simp_all
qed









section \<open>Order of the observations within a tick\<close>


















end
